theory Spec2Isabelle
  imports Complex_Main "HOL-Library.AList" "HOL-Library.Sublist" "HOL-Library.Word"
begin

section \<open>JavaScript values, objects and the heap\<close>

text \<open>
  The module \<^verbatim>\<open>src/detach/IosUtils.js\<close> works on values decoded from property lists:
  primitives and references to objects. Objects live in a heap, so that the copy made by
  the object spread and the assignments to that copy can be told apart from the objects
  the caller passed in. An address is an index into the heap; allocation appends.
\<close>

type_synonym byte = "8 word"
type_synonym addr = nat

datatype jsnum = NaN | PosInf | NegInf | Fin real

datatype jsval =
    JUndefined
  | JNull
  | JBool bool
  | JNum jsnum
  | JStr string
  | JRef addr

text \<open>
  A plain object keeps its own enumerable string-keyed properties in enumeration order.
  Arrays, Buffers and Dates are the other objects a property list decodes to.
\<close>

datatype jsobj =
    PlainObject "(string \<times> jsval) list"
  | ArrayObject "jsval list"
  | BufferObject "byte list"
  | DateObject jsnum

type_synonym heap = "jsobj list"

text \<open>
  \<open>Error m\<close> is an error created with message \<open>m\<close> (by \<^verbatim>\<open>new Error(m)\<close> here or by a
  collaborator); \<open>TypeError\<close> is raised by the engine itself, and its message text is not
  modelled.
\<close>

datatype error = Error string | TypeError

definition obj_at :: "heap \<Rightarrow> addr \<Rightarrow> jsobj option" where
  "obj_at h a = (if a < length h then Some (h ! a) else None)"

definition alloc :: "heap \<Rightarrow> jsobj \<Rightarrow> addr \<times> heap" where
  "alloc h ob = (length h, h @ [ob])"

text \<open>Truthiness, as tested by \<^verbatim>\<open>if (v)\<close>, \<^verbatim>\<open>!v\<close> and \<^verbatim>\<open>v || d\<close>.\<close>

fun truthy :: "jsval \<Rightarrow> bool" where
  "truthy JUndefined = False"
| "truthy JNull = False"
| "truthy (JBool b) = b"
| "truthy (JNum n) = (n \<noteq> NaN \<and> n \<noteq> Fin 0)"
| "truthy (JStr s) = (s \<noteq> [])"
| "truthy (JRef a) = True"

text \<open>Decimal rendering of an array index, the property key of an element.\<close>

definition digit10 :: "nat \<Rightarrow> char" where
  "digit10 d = ''0123456789'' ! d"

fun dec :: "nat \<Rightarrow> string" where
  "dec n = (if n < 10 then [digit10 n] else dec (n div 10) @ [digit10 (n mod 10)])"

declare dec.simps [simp del]

definition indexed :: "'a list \<Rightarrow> (string \<times> 'a) list" where
  "indexed xs = zip (map dec [0..<length xs]) xs"

text \<open>
  The own enumerable string-keyed properties of a value, in enumeration order: what the
  object spread \<^verbatim>\<open>{ ...v }\<close> copies. \<^verbatim>\<open>undefined\<close>, \<^verbatim>\<open>null\<close>, booleans and numbers have none;
  a string has its characters, an array its elements and a Buffer its bytes under their
  indices.
\<close>

definition ownEnumerable :: "heap \<Rightarrow> jsval \<Rightarrow> (string \<times> jsval) list" where
  "ownEnumerable h v =
     (case v of
        JStr s \<Rightarrow> indexed (map (\<lambda>c. JStr [c]) s)
      | JRef a \<Rightarrow>
          (case obj_at h a of
             Some (PlainObject ps) \<Rightarrow> ps
           | Some (ArrayObject xs) \<Rightarrow> indexed xs
           | Some (BufferObject bs) \<Rightarrow> indexed (map (\<lambda>b. JNum (Fin (real (unat b)))) bs)
           | Some (DateObject t) \<Rightarrow> []
           | None \<Rightarrow> [])
      | _ \<Rightarrow> [])"

text \<open>
  Member access \<^verbatim>\<open>v.k\<close> and \<^verbatim>\<open>v[k]\<close>. Reading a property of \<^verbatim>\<open>undefined\<close> or \<^verbatim>\<open>null\<close> raises
  a TypeError; a missing property reads as \<^verbatim>\<open>undefined\<close>. The keys this module reads
  (\<^verbatim>\<open>ProvisionedDevices\<close>, \<^verbatim>\<open>ProvisionsAllDevices\<close>, \<^verbatim>\<open>Entitlements\<close> and the transfer rules) are
  neither \<^verbatim>\<open>length\<close> nor names inherited from a built-in prototype, so only own
  properties are looked up.
\<close>

definition getProperty :: "heap \<Rightarrow> jsval \<Rightarrow> string \<Rightarrow> error + jsval" where
  "getProperty h v k =
     (case v of
        JUndefined \<Rightarrow> Inl TypeError
      | JNull \<Rightarrow> Inl TypeError
      | _ \<Rightarrow> (case map_of (ownEnumerable h v) k of Some x \<Rightarrow> Inr x | None \<Rightarrow> Inr JUndefined))"

text \<open>
  The operator \<^verbatim>\<open>k in v\<close>: a TypeError when \<open>v\<close> is not an object. For the keys asked here
  (the transfer rules, none inherited) it is membership among the own properties.
\<close>

definition js_in :: "heap \<Rightarrow> string \<Rightarrow> jsval \<Rightarrow> error + bool" where
  "js_in h k v =
     (case v of
        JRef a \<Rightarrow> Inr (k \<in> set (map fst (ownEnumerable h v)))
      | _ \<Rightarrow> Inl TypeError)"

text \<open>
  The assignment \<^verbatim>\<open>entitlements[k] = x\<close> on a plain object: an existing key keeps its place,
  a new key is added last.
\<close>

definition setProperty :: "heap \<Rightarrow> addr \<Rightarrow> string \<Rightarrow> jsval \<Rightarrow> heap" where
  "setProperty h a k x =
     (case obj_at h a of
        Some (PlainObject ps) \<Rightarrow> h[a := PlainObject (AList.update k x ps)]
      | _ \<Rightarrow> h)"

section \<open>Export method\<close>

definition resolveExportMethod :: "heap \<Rightarrow> jsval \<Rightarrow> error + string" where
  "resolveExportMethod h plistData =
     (case getProperty h plistData ''ProvisionedDevices'' of
        Inl e \<Rightarrow> Inl e
      | Inr devices \<Rightarrow>
          if truthy devices then Inr ''ad-hoc''
          else (case getProperty h plistData ''ProvisionsAllDevices'' of
                  Inl e \<Rightarrow> Inl e
                | Inr flag \<Rightarrow>
                    if flag = JBool True then Inr ''enterprise'' else Inr ''app-store''))"

section \<open>Entitlements\<close>

definition entitlementTransferRules :: "string list" where
  "entitlementTransferRules =
    [''com.apple.developer.associated-domains'',
     ''com.apple.developer.healthkit'',
     ''com.apple.developer.homekit'',
     ''com.apple.developer.icloud-container-identifiers'',
     ''com.apple.developer.icloud-services'',
     ''com.apple.developer.in-app-payments'',
     ''com.apple.developer.networking.vpn.api'',
     ''com.apple.developer.ubiquity-container-identifiers'',
     ''com.apple.developer.ubiquity-kvstore-identifier'',
     ''com.apple.external-accessory.wireless-configuration'',
     ''com.apple.security.application-groups'',
     ''inter-app-audio'',
     ''keychain-access-groups'']"

definition blacklistedEntitlementKeys :: "string list" where
  "blacklistedEntitlementKeys =
    [''com.apple.developer.icloud-container-development-container-identifiers'',
     ''com.apple.developer.icloud-container-environment'',
     ''com.apple.developer.icloud-container-identifiers'',
     ''com.apple.developer.icloud-services'',
     ''com.apple.developer.restricted-resource-mode'',
     ''com.apple.developer.ubiquity-container-identifiers'',
     ''com.apple.developer.ubiquity-kvstore-identifier'',
     ''inter-app-audio'',
     ''com.apple.developer.homekit'',
     ''com.apple.developer.healthkit'',
     ''com.apple.developer.in-app-payments'',
     ''com.apple.developer.maps'',
     ''com.apple.external-accessory.wireless-configuration'']"

text \<open>
  The loop \<^verbatim>\<open>entitlementTransferRules.forEach(rule => ...)\<close> of \<^verbatim>\<open>createEntitlementsFile\<close>,
  writing into the object at \<open>e\<close>.
\<close>

fun transferEach :: "heap \<Rightarrow> addr \<Rightarrow> jsval \<Rightarrow> string list \<Rightarrow> error + heap" where
  "transferEach h e archive [] = Inr h"
| "transferEach h e archive (rule # rules) =
     (case js_in h rule archive of
        Inl err \<Rightarrow> Inl err
      | Inr True \<Rightarrow>
          (case getProperty h archive rule of
             Inl err \<Rightarrow> Inl err
           | Inr x \<Rightarrow> transferEach (setProperty h e rule x) e archive rules)
      | Inr False \<Rightarrow> transferEach h e archive rules)"

text \<open>
  The lodash that is installed. \<^verbatim>\<open>_.pickBy\<close> builds its result by setting each picked property
  on a new object. The versions of lodash up to 4.17.15 set every key; the later ones
  (4.17.19 and after) guard against prototype pollution and leave out a property whose key
  is \<^verbatim>\<open>__proto__\<close>, \<^verbatim>\<open>constructor\<close> or \<^verbatim>\<open>prototype\<close>. The module does not say which one it
  runs with, so the version is a parameter.
\<close>

datatype lodash = Unguarded | Guarded

definition unsafeKeys :: "string list" where
  "unsafeKeys = [''__proto__'', ''constructor'', ''prototype'']"

fun refusedKeys :: "lodash \<Rightarrow> string list" where
  "refusedKeys Unguarded = []"
| "refusedKeys Guarded = unsafeKeys"

text \<open>
  \<^verbatim>\<open>_.pickBy(object, (val, key) => !_.includes(blacklistedEntitlementKeys, key))\<close>: a new
  object with the properties whose key is not blacklisted and that lodash agrees to set,
  in the same order.
\<close>

definition pickByNotBlacklisted ::
  "lodash \<Rightarrow> (string \<times> jsval) list \<Rightarrow> (string \<times> jsval) list" where
  "pickByNotBlacklisted L ps =
     filter (\<lambda>(key, val). key \<notin> set (refusedKeys L))
       (filter (\<lambda>(key, val). key \<notin> set blacklistedEntitlementKeys) ps)"

text \<open>
  Lines 209 to 218 of \<^verbatim>\<open>createEntitlementsFile\<close>, which the specification calls
  \<^verbatim>\<open>mergeEntitlements\<close>: spread the profile's entitlements into a fresh object, copy the
  transfer rules found in the archive's entitlements, then pick the keys that are not
  blacklisted into a second fresh object. The result is the reference to that object
  and the heap after the merge. \<open>L\<close> is the lodash whose \<^verbatim>\<open>_.pickBy\<close> is called.
\<close>

definition mergeEntitlements ::
  "lodash \<Rightarrow> heap \<Rightarrow> jsval \<Rightarrow> jsval \<Rightarrow> error + (jsval \<times> heap)" where
  "mergeEntitlements L h profile archive =
     (let (e, h1) = alloc h (PlainObject (ownEnumerable h profile)) in
      case transferEach h1 e archive entitlementTransferRules of
        Inl err \<Rightarrow> Inl err
      | Inr h2 \<Rightarrow>
          (let (g, h3) =
                 alloc h2 (PlainObject (pickByNotBlacklisted L (ownEnumerable h2 (JRef e))))
           in Inr (JRef g, h3)))"

section \<open>Strings and bytes\<close>

text \<open>\<^verbatim>\<open>String.prototype.indexOf\<close>: the first position where \<open>pat\<close> occurs in \<open>s\<close>, or \<open>-1\<close>.\<close>

fun indexOfFrom :: "string \<Rightarrow> string \<Rightarrow> nat \<Rightarrow> int" where
  "indexOfFrom [] pat i = (if pat = [] then int i else - 1)"
| "indexOfFrom (c # cs) pat i =
     (if prefix pat (c # cs) then int i else indexOfFrom cs pat (Suc i))"

definition indexOf :: "string \<Rightarrow> string \<Rightarrow> int" where
  "indexOf s pat = indexOfFrom s pat 0"

text \<open>\<^verbatim>\<open>Buffer.prototype.toString('base64')\<close>: standard base64 with padding.\<close>

definition base64Alphabet :: string where
  "base64Alphabet = ''ABCDEFGHIJKLMNOPQRSTUVWXYZabcdefghijklmnopqrstuvwxyz0123456789+/''"

definition b64 :: "nat \<Rightarrow> char" where
  "b64 n = base64Alphabet ! (n mod 64)"

fun toString_base64 :: "byte list \<Rightarrow> string" where
  "toString_base64 [] = []"
| "toString_base64 [a] =
     [b64 (unat a div 4), b64 ((unat a mod 4) * 16), CHR ''='', CHR ''='']"
| "toString_base64 [a, b] =
     [b64 (unat a div 4), b64 ((unat a mod 4) * 16 + unat b div 16),
      b64 ((unat b mod 16) * 4), CHR ''='']"
| "toString_base64 (a # b # c # rest) =
     [b64 (unat a div 4), b64 ((unat a mod 4) * 16 + unat b div 16),
      b64 ((unat b mod 16) * 4 + unat c div 64), b64 (unat c mod 64)]
     @ toString_base64 rest"

text \<open>
  The \<^verbatim>\<open>toHex\<close> of a forge byte buffer: for each byte a \<^verbatim>\<open>0\<close> when the byte is below 16,
  then the byte in base 16 with lower-case digits.
\<close>

definition hexDigit :: "nat \<Rightarrow> char" where
  "hexDigit d = ''0123456789abcdef'' ! d"

fun toString16 :: "nat \<Rightarrow> string" where
  "toString16 n = (if n < 16 then [hexDigit n] else toString16 (n div 16) @ [hexDigit (n mod 16)])"

declare toString16.simps [simp del]

definition toHex :: "byte list \<Rightarrow> string" where
  "toHex bs = concat (map (\<lambda>b. (if unat b < 16 then ''0'' else []) @ toString16 (unat b)) bs)"

text \<open>
  \<^verbatim>\<open>String.prototype.toUpperCase\<close> on the ASCII letters; the strings it is applied to
  here are hexadecimal digits.
\<close>

definition upperChar :: "char \<Rightarrow> char" where
  "upperChar c =
     (case map_of (zip ''abcdefghijklmnopqrstuvwxyz'' ''ABCDEFGHIJKLMNOPQRSTUVWXYZ'') c of
        Some u \<Rightarrow> u
      | None \<Rightarrow> c)"

definition toUpperCase :: "string \<Rightarrow> string" where
  "toUpperCase s = map upperChar s"

definition isUpperHex :: "char \<Rightarrow> bool" where
  "isUpperHex c = (c \<in> set ''0123456789ABCDEF'')"

section \<open>Certificate fingerprint\<close>

text \<open>
  The functions of node-forge that \<^verbatim>\<open>genCertFingerprint\<close> calls, as parameters: base64
  decoding, DER parsing, PKCS 12 decoding with a password (both raise on malformed
  input), the certificates of the bags of type \<^verbatim>\<open>certBag\<close> (a bag may have no \<^verbatim>\<open>cert\<close>),
  the ASN.1 form of a certificate, DER encoding, and the SHA-1 digest.
\<close>

record ('asn1, 'p12, 'cert) forge =
  decode64 :: "string \<Rightarrow> byte list"
  asn1_fromDer :: "byte list \<Rightarrow> error + 'asn1"
  pkcs12FromAsn1 :: "'asn1 \<Rightarrow> string \<Rightarrow> error + 'p12"
  getCertBags :: "'p12 \<Rightarrow> 'cert option list"
  certificateToAsn1 :: "'cert \<Rightarrow> 'asn1"
  asn1_toDer :: "'asn1 \<Rightarrow> byte list"
  sha1_digest :: "byte list \<Rightarrow> byte list"

text \<open>
  The first statement of \<^verbatim>\<open>genCertFingerprint\<close>: a Buffer becomes its base64 string, a
  string stays, anything else is refused.
\<close>

definition p12Base64 :: "heap \<Rightarrow> jsval \<Rightarrow> error + string" where
  "p12Base64 h p12Buffer =
     (case p12Buffer of
        JRef a \<Rightarrow>
          (case obj_at h a of
             Some (BufferObject bs) \<Rightarrow> Inr (toString_base64 bs)
           | _ \<Rightarrow> Inl (Error ''genCertFingerprint only takes strings and buffers.''))
      | JStr s \<Rightarrow> Inr s
      | _ \<Rightarrow> Inl (Error ''genCertFingerprint only takes strings and buffers.''))"

text \<open>
  \<^verbatim>\<open>_.get(p12.getBags({ bagType: certBagType }), [certBagType, 0, 'cert'])\<close>: the
  certificate of the first bag, if there is a first bag and it has one.
\<close>

definition firstCert :: "'cert option list \<Rightarrow> 'cert option" where
  "firstCert bags = (case bags of [] \<Rightarrow> None | bag # _ \<Rightarrow> bag)"

text \<open>
  The password is a string or absent (\<open>None\<close>): \<^verbatim>\<open>String(passwordRaw || '')\<close> is then the
  string itself, or the empty string.
\<close>

definition genCertFingerprint ::
  "('asn1, 'p12, 'cert) forge \<Rightarrow> heap \<Rightarrow> jsval \<Rightarrow> string option \<Rightarrow> error + string" where
  "genCertFingerprint F h p12Buffer passwordRaw =
     (case p12Base64 h p12Buffer of
        Inl e \<Rightarrow> Inl e
      | Inr p12String \<Rightarrow>
          (let password = (case passwordRaw of None \<Rightarrow> [] | Some s \<Rightarrow> s);
               p12Der = decode64 F p12String
           in case asn1_fromDer F p12Der of
                Inl e \<Rightarrow> Inl e
              | Inr p12Asn1 \<Rightarrow>
                  (case pkcs12FromAsn1 F p12Asn1 password of
                     Inl e \<Rightarrow> Inl e
                   | Inr p12 \<Rightarrow>
                       (case firstCert (getCertBags F p12) of
                          None \<Rightarrow> Inl (Error ''genCertFingerprint: couldn't find cert bag'')
                        | Some certData \<Rightarrow>
                            (let certAsn1 = certificateToAsn1 F certData;
                                 certDer = asn1_toDer F certAsn1
                             in Inr (toUpperCase (toHex (sha1_digest F certDer))))))))"

section \<open>The outside world\<close>

text \<open>
  The file system and the processes the module talks to, as parameters over a state
  \<open>'w\<close> of the outside world that is passed along. \<^verbatim>\<open>plist.parse\<close> under \<^verbatim>\<open>_.attempt\<close>
  gives the message of the error it raised or the decoded value, whose objects it
  allocates. What \<^verbatim>\<open>fs.writeFile\<close> is given is a string or, when \<^verbatim>\<open>plist.build\<close> raised,
  the error object \<^verbatim>\<open>_.attempt\<close> returned. The lodash that is installed is part of the
  surroundings too.
\<close>

datatype write_data = Text string | ErrorObject error

record 'w env =
  readFile :: "'w \<Rightarrow> string \<Rightarrow> error + byte list"
  writeFile :: "'w \<Rightarrow> string \<Rightarrow> write_data \<Rightarrow> nat \<Rightarrow> error + 'w"
  glob :: "'w \<Rightarrow> string \<Rightarrow> error + string list"
  spawnAsyncThrowError :: "'w \<Rightarrow> string \<Rightarrow> string list \<Rightarrow> error + (string list \<times> 'w)"
  path_join :: "string \<Rightarrow> string \<Rightarrow> string"
  buffer_toString :: "byte list \<Rightarrow> string"
  plist_parse :: "heap \<Rightarrow> string \<Rightarrow> string + (jsval \<times> heap)"
  plist_build :: "heap \<Rightarrow> jsval \<Rightarrow> error + string"
  installed_lodash :: lodash

definition findIdentitiesByTeamID :: "'w env \<Rightarrow> 'w \<Rightarrow> string \<Rightarrow> error + (string \<times> 'w)" where
  "findIdentitiesByTeamID E w teamID =
     (case spawnAsyncThrowError E w ''security''
             [''find-identity'', ''-v'', ''-s'', ''('' @ teamID @ '')''] of
        Inl e \<Rightarrow> Inl e
      | Inr (output, w') \<Rightarrow> Inr (concat output, w'))"

text \<open>
  \<^verbatim>\<open>fs.readFile\<close> gives a fresh Buffer, here the only object of the heap the fingerprint is
  computed in.
\<close>

definition ensureCertificateValid ::
  "'w env \<Rightarrow> ('asn1, 'p12, 'cert) forge \<Rightarrow> 'w \<Rightarrow> string \<Rightarrow> string option \<Rightarrow> string
     \<Rightarrow> error + (string \<times> 'w)" where
  "ensureCertificateValid E F w certPath certPassword teamID =
     (case readFile E w certPath of
        Inl e \<Rightarrow> Inl e
      | Inr certData \<Rightarrow>
          (case genCertFingerprint F [BufferObject certData] (JRef 0) certPassword of
             Inl e \<Rightarrow> Inl e
           | Inr fingerprint \<Rightarrow>
               (case findIdentitiesByTeamID E w teamID of
                  Inl e \<Rightarrow> Inl e
                | Inr (identities, w') \<Rightarrow>
                    (let isValid = (indexOf identities fingerprint \<noteq> - 1)
                     in if \<not> isValid
                        then Inl (Error (''codesign ident not present in find-identity: ''
                                         @ fingerprint @ [CHR 0x0A] @ identities))
                        else Inr (fingerprint, w')))))"

section \<open>Writing the entitlements file\<close>

text \<open>
  \<^verbatim>\<open>createEntitlementsFile\<close> from line 202 on, once the one entitlements file of the archive
  is known: read and parse it, merge, build the property list, write it with mode
  \<^verbatim>\<open>0o755\<close>, let PlistBuddy print it and write that over it.
\<close>

definition mode_0o755 :: nat where
  "mode_0o755 = 7 * 64 + 5 * 8 + 5"

definition processArchiveEntitlements ::
  "'w env \<Rightarrow> 'w \<Rightarrow> heap \<Rightarrow> string \<Rightarrow> jsval \<Rightarrow> string \<Rightarrow> error + 'w" where
  "processArchiveEntitlements E w h generatedEntitlementsPath profileEntitlements
       archiveEntitlementsPath =
     (case readFile E w archiveEntitlementsPath of
        Inl e \<Rightarrow> Inl e
      | Inr archiveEntitlementsRaw \<Rightarrow>
          (case plist_parse E h (buffer_toString E archiveEntitlementsRaw) of
             Inl message \<Rightarrow> Inl (Error (''Error when parsing plist: '' @ message))
           | Inr (archiveEntitlementsData, h1) \<Rightarrow>
               (case mergeEntitlements (installed_lodash E) h1 profileEntitlements
                       archiveEntitlementsData of
                  Inl e \<Rightarrow> Inl e
                | Inr (generatedEntitlements, h2) \<Rightarrow>
                    (let generatedEntitlementsPlistData =
                           (case plist_build E h2 generatedEntitlements of
                              Inl e \<Rightarrow> ErrorObject e
                            | Inr s \<Rightarrow> Text s)
                     in case writeFile E w generatedEntitlementsPath
                               generatedEntitlementsPlistData mode_0o755 of
                          Inl e \<Rightarrow> Inl e
                        | Inr w1 \<Rightarrow>
                            (case spawnAsyncThrowError E w1 ''/usr/libexec/PlistBuddy''
                                    [''-x'', ''-c'', ''Print'', generatedEntitlementsPath] of
                               Inl e \<Rightarrow> Inl e
                             | Inr (output, w2) \<Rightarrow>
                                 writeFile E w2 generatedEntitlementsPath
                                   (Text (concat output)) mode_0o755)))))"

definition createEntitlementsFile ::
  "'w env \<Rightarrow> 'w \<Rightarrow> heap \<Rightarrow> string \<Rightarrow> jsval \<Rightarrow> string \<Rightarrow> error + 'w" where
  "createEntitlementsFile E w h generatedEntitlementsPath plistData archivePath =
     (case getProperty h plistData ''Entitlements'' of
        Inl e \<Rightarrow> Inl e
      | Inr decodedProvisioningProfileEntitlements \<Rightarrow>
          (let entitlementsPattern =
                 path_join E archivePath ''Products/Applications/ExpoKitApp.app/*.entitlements''
           in case glob E w entitlementsPattern of
                Inl e \<Rightarrow> Inl e
              | Inr entitlementsPaths \<Rightarrow>
                  if length entitlementsPaths = 0
                  then Inl (Error ''Didn't find any generated entitlements file in archive.'')
                  else if length entitlementsPaths \<noteq> 1
                  then Inl (Error ''Found more than one entitlements file.'')
                  else processArchiveEntitlements E w h generatedEntitlementsPath
                         decodedProvisioningProfileEntitlements (entitlementsPaths ! 0)))"

section \<open>Auxiliary definitions for the proofs\<close>

text \<open>
  What the transfer loop does to the properties \<open>ps\<close> of the working copy, given the
  properties \<open>ap\<close> of the archive's entitlements.
\<close>

fun transferProps :: "(string \<times> jsval) list \<Rightarrow> (string \<times> jsval) list \<Rightarrow> string list \<Rightarrow> (string \<times> jsval) list" where
  "transferProps ap ps [] = ps"
| "transferProps ap ps (rule # rules) =
     transferProps ap (case map_of ap rule of Some x \<Rightarrow> AList.update rule x ps | None \<Rightarrow> ps) rules"

text \<open>
  A heap with the objects of the examples: at 0 a profile with keychain groups and the maps
  key, at 1 an archive with keychain groups, at 2 and 3 their arrays, at 4 an empty
  object, at 5 an archive with \<^verbatim>\<open>inter-app-audio\<close>.
\<close>

definition exampleHeap :: heap where
  "exampleHeap =
     [PlainObject [(''keychain-access-groups'', JRef 2), (''com.apple.developer.maps'', JBool True)],
      PlainObject [(''keychain-access-groups'', JRef 3)],
      ArrayObject [JStr ''x''],
      ArrayObject [JStr ''y'', JStr ''z''],
      PlainObject [],
      PlainObject [(''inter-app-audio'', JBool True)]]"

text \<open>
  A profile with an entitlement under the key \<^verbatim>\<open>constructor\<close> at 0, an empty archive at 1, and
  the heap after they are merged with a guarded lodash.
\<close>

definition constructorHeap :: heap where
  "constructorHeap =
     [PlainObject [(''constructor'', JStr ''c''), (''aps-environment'', JStr ''production'')],
      PlainObject []]"

definition constructorMerged :: heap where
  "constructorMerged =
     constructorHeap @
       [PlainObject [(''constructor'', JStr ''c''), (''aps-environment'', JStr ''production'')],
        PlainObject [(''aps-environment'', JStr ''production'')]]"

text \<open>
  Profile metadata for the export method: at 0 an empty list of provisioned devices (the
  array at 1) next to the all-devices flag, at 2 the flag alone.
\<close>

definition exportHeap :: heap where
  "exportHeap =
     [PlainObject [(''ProvisionedDevices'', JRef 1), (''ProvisionsAllDevices'', JBool True)],
      ArrayObject [],
      PlainObject [(''ProvisionsAllDevices'', JBool True)]]"

text \<open>\<^verbatim>\<open>Object.keys\<close>: the keys of the own enumerable properties.\<close>

definition objectKeys :: "heap \<Rightarrow> jsval \<Rightarrow> string list" where
  "objectKeys h v = map fst (ownEnumerable h v)"

text \<open>
  A stand-in for node-forge with small total functions, to run the fingerprint on: a
  container decodes when it is not empty and the password is \<^verbatim>\<open>secret\<close>, it has a
  certificate bag when it has four bytes or more, and a digest is twenty bytes.
\<close>

definition exampleForge :: "(byte list, byte list, byte list) forge" where
  "exampleForge =
     \<lparr> decode64 = map (\<lambda>c. of_nat (of_char c)),
       asn1_fromDer = (\<lambda>bs. if bs = [] then Inl (Error ''Too few bytes to parse DER.'') else Inr bs),
       pkcs12FromAsn1 =
         (\<lambda>a pw. if pw = ''secret'' then Inr a
                  else Inl (Error ''PKCS#12 MAC could not be verified. Invalid password?'')),
       getCertBags = (\<lambda>p. if length p < 4 then [] else [Some p]),
       certificateToAsn1 = (\<lambda>c. c),
       asn1_toDer = (\<lambda>a. a),
       sha1_digest = (\<lambda>bs. replicate 20 (of_nat (length bs))) \<rparr>"

text \<open>
  A stand-in for the outside world whose state is the list of the files written so far:
  archives with no, one and two entitlements files, and an identity listing for the team
  \<^verbatim>\<open>TEAM1\<close> only.
\<close>

type_synonym written = "(string \<times> write_data \<times> nat) list"

definition exampleEnv :: "written env" where
  "exampleEnv =
     \<lparr> readFile = (\<lambda>w path. if path = ''missing'' then Inl (Error ''ENOENT'') else Inr [1, 2, 3]),
       writeFile = (\<lambda>w path d mode. Inr (w @ [(path, d, mode)])),
       glob =
         (\<lambda>w pattern.
            if prefix ''none'' pattern then Inr []
            else if prefix ''two'' pattern then Inr [''two/a.entitlements'', ''two/b.entitlements'']
            else Inr [''one/ExpoKitApp.entitlements'']),
       spawnAsyncThrowError =
         (\<lambda>w cmd args.
            if cmd = ''security''
            then (if last args = ''(TEAM1)''
                  then Inr ([''1) '', ''0404040404040404040404040404040404040404'', '' ok''], w)
                  else Inr ([], w))
            else Inr ([''<plist/>''], w)),
       path_join = (\<lambda>a b. a @ ''/'' @ b),
       buffer_toString = map (\<lambda>b. char_of (unat b)),
       plist_parse =
         (\<lambda>h s. if s = [] then Inl ''Unexpected end of input''
                 else Inr (JRef (length h), h @ [PlainObject [(''keychain-access-groups'', JStr s)]])),
       plist_build = (\<lambda>h v. Inr (concat (map fst (ownEnumerable h v)))),
       installed_lodash = Guarded \<rparr>"

text \<open>Profile metadata whose \<^verbatim>\<open>Entitlements\<close> is the object at 1.\<close>

definition profileHeap :: heap where
  "profileHeap =
     [PlainObject [(''Entitlements'', JRef 1)],
      PlainObject [(''application-identifier'', JStr ''TEAM1.host.exp.Exponent''),
                   (''com.apple.developer.maps'', JBool True)]]"

section \<open>Properties of the export method\<close>

text \<open>
  C2, as stated, fails: with an empty list of provisioned devices and the all-devices flag
  true, the claim gives \<^verbatim>\<open>enterprise\<close>, but the empty array is truthy and the result is
  \<^verbatim>\<open>ad-hoc\<close>.
\<close>

theorem resolveExportMethod_empty_list:
  "obj_at exportHeap 1 = Some (ArrayObject [])
   \<and> getProperty exportHeap (JRef 0) ''ProvisionedDevices'' = Inr (JRef 1)
   \<and> getProperty exportHeap (JRef 0) ''ProvisionsAllDevices'' = Inr (JBool True)
   \<and> resolveExportMethod exportHeap (JRef 0) = Inr ''ad-hoc''
   \<and> resolveExportMethod exportHeap (JRef 0) \<noteq> Inr ''enterprise''"
  by (simp add: exportHeap_def obj_at_def getProperty_def ownEnumerable_def resolveExportMethod_def)

text \<open>
  C2, amended: for profile metadata that is a plain object, \<^verbatim>\<open>resolveExportMethod\<close> takes
  exactly one branch in fixed order: \<^verbatim>\<open>ad-hoc\<close> when the \<^verbatim>\<open>ProvisionedDevices\<close> property is
  truthy (any list, the empty one too), else \<^verbatim>\<open>enterprise\<close> when \<^verbatim>\<open>ProvisionsAllDevices\<close>
  is exactly \<^verbatim>\<open>true\<close>, else \<^verbatim>\<open>app-store\<close>; a missing property reads as \<^verbatim>\<open>undefined\<close>.
\<close>

theorem resolveExportMethod_policy:
  assumes "obj_at h a = Some (PlainObject ps)"
  shows "resolveExportMethod h (JRef a) =
           Inr (let devices = (case map_of ps ''ProvisionedDevices'' of Some v \<Rightarrow> v | None \<Rightarrow> JUndefined);
                    flag = (case map_of ps ''ProvisionsAllDevices'' of Some v \<Rightarrow> v | None \<Rightarrow> JUndefined)
                in if truthy devices then ''ad-hoc''
                   else if flag = JBool True then ''enterprise''
                   else ''app-store'')"
proof -
  have own: "ownEnumerable h (JRef a) = ps"
    using assms by (simp add: ownEnumerable_def)
  have get: "getProperty h (JRef a) k = Inr (case map_of ps k of Some v \<Rightarrow> v | None \<Rightarrow> JUndefined)" for k
    using own by (simp add: getProperty_def split: option.splits)
  show ?thesis
    by (simp add: resolveExportMethod_def get Let_def)
qed

theorem resolveExportMethod_policy_witness:
  "obj_at exportHeap 2 = Some (PlainObject [(''ProvisionsAllDevices'', JBool True)])
   \<and> resolveExportMethod exportHeap (JRef 2) = Inr ''enterprise''"
proof -
  have o: "obj_at exportHeap 2 = Some (PlainObject [(''ProvisionsAllDevices'', JBool True)])"
    by (simp add: exportHeap_def obj_at_def)
  show ?thesis
    using o resolveExportMethod_policy [OF o] by simp
qed

section \<open>Properties of the merge of entitlements\<close>

lemma obj_at_update_other: "a \<noteq> e \<Longrightarrow> obj_at (h[e := ob]) a = obj_at h a"
  by (simp add: obj_at_def)

lemma obj_at_update_same: "e < length h \<Longrightarrow> obj_at (h[e := ob]) e = Some ob"
  by (simp add: obj_at_def)

lemma ownEnumerable_update_other:
  "a \<noteq> e \<Longrightarrow> ownEnumerable (h[e := ob]) (JRef a) = ownEnumerable h (JRef a)"
  by (simp add: ownEnumerable_def obj_at_update_other)

lemma transferEach_object:
  assumes "obj_at h e = Some (PlainObject ps)" and "a \<noteq> e"
  shows "transferEach h e (JRef a) rules =
           Inr (h[e := PlainObject (transferProps (ownEnumerable h (JRef a)) ps rules)])"
  using assms
proof (induction rules arbitrary: h ps)
  case Nil
  then have "h[e := PlainObject ps] = h"
    by (metis list_update_id obj_at_def option.distinct(1) option.inject)
  then show ?case by simp
next
  case (Cons rule rules)
  let ?ap = "ownEnumerable h (JRef a)"
  have e_lt: "e < length h"
    using Cons.prems(1) by (simp add: obj_at_def split: if_splits)
  show ?case
  proof (cases "map_of ?ap rule")
    case None
    then have "rule \<notin> set (map fst ?ap)"
      by (simp add: map_of_eq_None_iff)
    then have "js_in h rule (JRef a) = Inr False"
      by (simp add: js_in_def)
    with None Cons show ?thesis by simp
  next
    case (Some x)
    then have "rule \<in> set (map fst ?ap)"
      by (metis map_of_eq_None_iff option.distinct(1) set_map)
    then have isin: "js_in h rule (JRef a) = Inr True"
      by (simp add: js_in_def)
    have get: "getProperty h (JRef a) rule = Inr x"
      using Some by (simp add: getProperty_def)
    let ?h' = "h[e := PlainObject (AList.update rule x ps)]"
    have set: "setProperty h e rule x = ?h'"
      using Cons.prems(1) by (simp add: setProperty_def)
    have at: "obj_at ?h' e = Some (PlainObject (AList.update rule x ps))"
      using e_lt by (rule obj_at_update_same)
    have own: "ownEnumerable ?h' (JRef a) = ?ap"
      using Cons.prems(2) by (rule ownEnumerable_update_other)
    have "transferEach ?h' e (JRef a) rules =
            Inr (?h'[e := PlainObject (transferProps ?ap (AList.update rule x ps) rules)])"
      using Cons.IH [OF at Cons.prems(2)] own by simp
    then show ?thesis
      using isin get set Some by simp
  qed
qed

lemma transferProps_keys:
  "fst ` set (transferProps ap ps rules) = fst ` set ps \<union> (set rules \<inter> fst ` set ap)"
proof (induction rules arbitrary: ps)
  case Nil
  show ?case by simp
next
  case (Cons rule rules)
  show ?case
  proof (cases "map_of ap rule")
    case None
    then have "rule \<notin> fst ` set ap" by (simp add: map_of_eq_None_iff)
    with None Cons show ?thesis by auto
  next
    case (Some x)
    then have "rule \<in> fst ` set ap"
      by (metis map_of_eq_None_iff option.distinct(1))
    with Some Cons show ?thesis by (auto simp: AList.dom_update)
  qed
qed

lemma transferProps_map_of_other:
  "k \<notin> set rules \<or> map_of ap k = None \<Longrightarrow> map_of (transferProps ap ps rules) k = map_of ps k"
proof (induction rules arbitrary: ps)
  case Nil
  show ?case by simp
next
  case (Cons rule rules)
  then show ?case
    by (cases "map_of ap rule") (auto simp: AList.update_conv')
qed

lemma transferProps_map_of_rule:
  "k \<in> set rules \<Longrightarrow> map_of ap k = Some x \<Longrightarrow> map_of (transferProps ap ps rules) k = Some x"
proof (induction rules arbitrary: ps)
  case Nil
  then show ?case by simp
next
  case (Cons rule rules)
  show ?case
  proof (cases "k \<in> set rules")
    case True
    with Cons show ?thesis by simp
  next
    case False
    with Cons.prems have "rule = k" by simp
    with Cons.prems False show ?thesis
      by (simp add: transferProps_map_of_other AList.update_conv')
  qed
qed

lemma refusedKeys_unsafe: "set (refusedKeys L) \<subseteq> set unsafeKeys"
  by (cases L) simp_all

lemma pickByNotBlacklisted_keys:
  "fst ` set (pickByNotBlacklisted L ps) =
     fst ` set ps - set blacklistedEntitlementKeys - set (refusedKeys L)"
  by (force simp: pickByNotBlacklisted_def)

lemma pickByNotBlacklisted_map_of:
  "map_of (pickByNotBlacklisted L ps) k =
     (if k \<in> set blacklistedEntitlementKeys \<or> k \<in> set (refusedKeys L) then None
      else map_of ps k)"
  by (induction ps) (auto simp: pickByNotBlacklisted_def)

lemma merge_object_archive:
  assumes "a < length h"
  shows "mergeEntitlements L h profile (JRef a) =
           Inr (JRef (Suc (length h)),
                h @ [PlainObject (transferProps (ownEnumerable h (JRef a)) (ownEnumerable h profile) entitlementTransferRules),
                     PlainObject (pickByNotBlacklisted L
                       (transferProps (ownEnumerable h (JRef a)) (ownEnumerable h profile) entitlementTransferRules))])"
proof -
  let ?pp = "ownEnumerable h profile"
  let ?h1 = "h @ [PlainObject ?pp]"
  let ?e = "length h"
  have at: "obj_at ?h1 ?e = Some (PlainObject ?pp)"
    by (simp add: obj_at_def)
  have ne: "a \<noteq> ?e" using assms by simp
  have own: "ownEnumerable ?h1 (JRef a) = ownEnumerable h (JRef a)"
    using assms by (simp add: ownEnumerable_def obj_at_def nth_append)
  let ?tp = "transferProps (ownEnumerable h (JRef a)) ?pp entitlementTransferRules"
  have tr: "transferEach ?h1 ?e (JRef a) entitlementTransferRules = Inr (h @ [PlainObject ?tp])"
    using transferEach_object [OF at ne, of entitlementTransferRules] own by simp
  have own2: "ownEnumerable (h @ [PlainObject ?tp]) (JRef ?e) = ?tp"
    by (simp add: ownEnumerable_def obj_at_def)
  show ?thesis
    unfolding mergeEntitlements_def alloc_def
    using tr own2 by simp
qed

lemma merge_primitive_archive:
  assumes "\<And>a. archive \<noteq> JRef a"
  shows "mergeEntitlements L h profile archive = Inl TypeError"
proof -
  have "js_in h1 rule archive = Inl TypeError" for h1 rule
    using assms by (cases archive) (auto simp: js_in_def)
  then show ?thesis
    by (simp add: mergeEntitlements_def alloc_def entitlementTransferRules_def)
qed

text \<open>
  C1, as stated, fails: with a guarded lodash the profile
  \<^verbatim>\<open>{constructor: 'c', 'aps-environment': 'production'}\<close> merged with an empty archive gives
  \<^verbatim>\<open>{'aps-environment': 'production'}\<close>. The key \<^verbatim>\<open>constructor\<close> is a key of the profile and
  is not blacklisted, so it is in the key set of the claim, and it is no key of the result.
\<close>

theorem merge_key_set_constructor:
  "mergeEntitlements Guarded constructorHeap (JRef 0) (JRef 1) = Inr (JRef 3, constructorMerged)
   \<and> ''constructor'' \<in>
         (set (objectKeys constructorHeap (JRef 0))
            \<union> (set entitlementTransferRules \<inter> set (objectKeys constructorHeap (JRef 1))))
           - set blacklistedEntitlementKeys
   \<and> ''constructor'' \<notin> set (objectKeys constructorMerged (JRef 3))"
  by (simp add: constructorMerged_def constructorHeap_def mergeEntitlements_def alloc_def
        ownEnumerable_def obj_at_def entitlementTransferRules_def js_in_def
        pickByNotBlacklisted_def blacklistedEntitlementKeys_def unsafeKeys_def objectKeys_def)

text \<open>
  C1, amended: when both entitlements are plain objects, the merge succeeds and the keys of
  its result are the keys of the profile's entitlements together with the transfer rules
  that are keys of the archive's entitlements, without the blacklisted keys and without
  the keys the installed lodash refuses to set: none for an unguarded lodash,
  \<^verbatim>\<open>__proto__\<close>, \<^verbatim>\<open>constructor\<close> and \<^verbatim>\<open>prototype\<close> for a guarded one. So for every key other
  than these three, whatever the lodash, the key is in the result exactly when it is in
  the set of the claim. \<^verbatim>\<open>inter-app-audio\<close>, a transfer rule that is blacklisted, is never a
  key of the result, and neither is a key that is no key of the profile and no transfer
  rule.
\<close>

theorem merge_key_set:
  assumes "obj_at h p = Some (PlainObject pp)" and "obj_at h a = Some (PlainObject ap)"
  shows "\<exists>g h' rp. mergeEntitlements L h (JRef p) (JRef a) = Inr (JRef g, h')
           \<and> obj_at h' g = Some (PlainObject rp)
           \<and> fst ` set rp =
               (fst ` set pp \<union> (set entitlementTransferRules \<inter> fst ` set ap))
                 - set blacklistedEntitlementKeys - set (refusedKeys L)
           \<and> (\<forall>k. k \<notin> set unsafeKeys \<longrightarrow>
                 (k \<in> fst ` set rp \<longleftrightarrow>
                  k \<in> (fst ` set pp \<union> (set entitlementTransferRules \<inter> fst ` set ap))
                        - set blacklistedEntitlementKeys))
           \<and> ''inter-app-audio'' \<notin> fst ` set rp
           \<and> (\<forall>k. k \<notin> fst ` set pp \<and> k \<notin> set entitlementTransferRules \<longrightarrow> k \<notin> fst ` set rp)"
proof -
  have a_lt: "a < length h"
    using assms(2) by (simp add: obj_at_def split: if_splits)
  have pp: "ownEnumerable h (JRef p) = pp"
    using assms(1) by (simp add: ownEnumerable_def)
  have ap: "ownEnumerable h (JRef a) = ap"
    using assms(2) by (simp add: ownEnumerable_def)
  let ?tp = "transferProps ap pp entitlementTransferRules"
  let ?rp = "pickByNotBlacklisted L ?tp"
  let ?h' = "h @ [PlainObject ?tp, PlainObject ?rp]"
  let ?claimed = "(fst ` set pp \<union> (set entitlementTransferRules \<inter> fst ` set ap))
        - set blacklistedEntitlementKeys"
  have res: "mergeEntitlements L h (JRef p) (JRef a) = Inr (JRef (Suc (length h)), ?h')"
    using merge_object_archive [OF a_lt, of L "JRef p"] pp ap by simp
  have at: "obj_at ?h' (Suc (length h)) = Some (PlainObject ?rp)"
    by (simp add: obj_at_def nth_append)
  have keys: "fst ` set ?rp = ?claimed - set (refusedKeys L)"
    by (simp add: pickByNotBlacklisted_keys transferProps_keys)
  have safe: "\<forall>k. k \<notin> set unsafeKeys \<longrightarrow> (k \<in> fst ` set ?rp \<longleftrightarrow> k \<in> ?claimed)"
  proof (intro allI impI)
    fix k assume "k \<notin> set unsafeKeys"
    then have "k \<notin> set (refusedKeys L)"
      using refusedKeys_unsafe [of L] by (rule contra_subsetD [rotated])
    then show "k \<in> fst ` set ?rp \<longleftrightarrow> k \<in> ?claimed"
      by (simp only: keys Diff_iff simp_thms)
  qed
  have audio: "''inter-app-audio'' \<in> set blacklistedEntitlementKeys"
    by (simp add: blacklistedEntitlementKeys_def)
  have no_audio: "''inter-app-audio'' \<notin> fst ` set ?rp"
    using audio by (simp only: keys Diff_iff simp_thms)
  have no_leak: "\<forall>k. k \<notin> fst ` set pp \<and> k \<notin> set entitlementTransferRules \<longrightarrow> k \<notin> fst ` set ?rp"
    by (simp only: keys Diff_iff Un_iff Int_iff simp_thms) simp
  from res at keys safe no_audio no_leak show ?thesis
    by (intro exI conjI)
qed

theorem merge_key_set_witness:
  "obj_at exampleHeap 4 = Some (PlainObject [])
   \<and> obj_at exampleHeap 5 = Some (PlainObject [(''inter-app-audio'', JBool True)])
   \<and> (\<exists>g h' rp. mergeEntitlements Guarded exampleHeap (JRef 4) (JRef 5) = Inr (JRef g, h')
           \<and> obj_at h' g = Some (PlainObject rp) \<and> fst ` set rp = {})"
proof -
  have p: "obj_at exampleHeap 4 = Some (PlainObject [])"
    by (simp add: obj_at_def exampleHeap_def)
  have a: "obj_at exampleHeap 5 = Some (PlainObject [(''inter-app-audio'', JBool True)])"
    by (simp add: obj_at_def exampleHeap_def)
  have e: "(fst ` set [] \<union> (set entitlementTransferRules \<inter> fst ` set [(''inter-app-audio'', JBool True)]))
          - set blacklistedEntitlementKeys - set (refusedKeys Guarded) = {}"
    by (auto simp: blacklistedEntitlementKeys_def)
  from merge_key_set [OF p a, of Guarded]
  have "\<exists>g h' rp. mergeEntitlements Guarded exampleHeap (JRef 4) (JRef 5) = Inr (JRef g, h')
           \<and> obj_at h' g = Some (PlainObject rp) \<and> fst ` set rp = {}"
    unfolding e by (elim exE conjE) (intro exI conjI)
  with p a show ?thesis by (intro conjI)
qed

text \<open>
  C4, as stated, fails: a profile without entitlements (\<^verbatim>\<open>undefined\<close>, not a mapping) merged
  with an empty archive object raises nothing and gives an empty object, with either
  lodash.
\<close>

theorem merge_undefined_profile:
  "mergeEntitlements Unguarded [PlainObject []] JUndefined (JRef 0) =
     Inr (JRef 2, [PlainObject [], PlainObject [], PlainObject []])
   \<and> mergeEntitlements Guarded [PlainObject []] JUndefined (JRef 0) =
     Inr (JRef 2, [PlainObject [], PlainObject [], PlainObject []])"
  by (simp add: mergeEntitlements_def alloc_def ownEnumerable_def obj_at_def
        entitlementTransferRules_def js_in_def pickByNotBlacklisted_def)

text \<open>
  C4, amended: the merge checks nothing about its inputs. When the archive's entitlements
  are not an object (\<^verbatim>\<open>undefined\<close>, \<^verbatim>\<open>null\<close>, a boolean, a number, a string) the \<^verbatim>\<open>in\<close>
  operator raises a TypeError and there is no result. When they are an object the merge
  succeeds whatever the profile's entitlements are; the keys of the result are computed
  from the own enumerable properties of both, without the blacklisted keys and without the
  keys the installed lodash refuses to set. \<^verbatim>\<open>undefined\<close>, \<^verbatim>\<open>null\<close>, booleans and numbers have
  no such properties, so such a profile merges as the empty mapping.
\<close>

theorem merge_non_mapping:
  "((\<forall>a. archive \<noteq> JRef a) \<longrightarrow> mergeEntitlements L h profile archive = Inl TypeError)
   \<and> (a < length h \<longrightarrow>
        (\<exists>g h'. mergeEntitlements L h profile (JRef a) = Inr (JRef g, h')
           \<and> set (objectKeys h' (JRef g)) =
               (set (objectKeys h profile)
                  \<union> (set entitlementTransferRules \<inter> set (objectKeys h (JRef a))))
                 - set blacklistedEntitlementKeys - set (refusedKeys L)))
   \<and> (profile \<in> {JUndefined, JNull} \<union> range JBool \<union> range JNum \<longrightarrow> objectKeys h profile = [])"
proof (intro conjI impI)
  assume "\<forall>a. archive \<noteq> JRef a"
  then show "mergeEntitlements L h profile archive = Inl TypeError"
    by (simp add: merge_primitive_archive)
next
  assume a_lt: "a < length h"
  let ?tp = "transferProps (ownEnumerable h (JRef a)) (ownEnumerable h profile) entitlementTransferRules"
  let ?rp = "pickByNotBlacklisted L ?tp"
  let ?h' = "h @ [PlainObject ?tp, PlainObject ?rp]"
  have res: "mergeEntitlements L h profile (JRef a) = Inr (JRef (Suc (length h)), ?h')"
    using merge_object_archive [OF a_lt] by simp
  have "ownEnumerable ?h' (JRef (Suc (length h))) = ?rp"
    by (simp add: ownEnumerable_def obj_at_def nth_append)
  then have "set (objectKeys ?h' (JRef (Suc (length h)))) =
               (set (objectKeys h profile)
                  \<union> (set entitlementTransferRules \<inter> set (objectKeys h (JRef a))))
                 - set blacklistedEntitlementKeys - set (refusedKeys L)"
    by (simp add: objectKeys_def pickByNotBlacklisted_keys transferProps_keys)
  with res show "\<exists>g h'. mergeEntitlements L h profile (JRef a) = Inr (JRef g, h')
           \<and> set (objectKeys h' (JRef g)) =
               (set (objectKeys h profile)
                  \<union> (set entitlementTransferRules \<inter> set (objectKeys h (JRef a))))
                 - set blacklistedEntitlementKeys - set (refusedKeys L)"
    by (intro exI conjI)
next
  assume "profile \<in> {JUndefined, JNull} \<union> range JBool \<union> range JNum"
  then show "objectKeys h profile = []"
    by (auto simp: objectKeys_def ownEnumerable_def)
qed

theorem merge_non_mapping_witness:
  "(\<forall>a. JStr ''text'' \<noteq> JRef a)
   \<and> mergeEntitlements Guarded exampleHeap (JRef 0) (JStr ''text'') = Inl TypeError
   \<and> (3::nat) < length exampleHeap
   \<and> (\<exists>g h'. mergeEntitlements Guarded exampleHeap JNull (JRef 3) = Inr (JRef g, h')
          \<and> set (objectKeys h' (JRef g)) =
               (set (objectKeys exampleHeap JNull)
                  \<union> (set entitlementTransferRules \<inter> set (objectKeys exampleHeap (JRef 3))))
                 - set blacklistedEntitlementKeys - set (refusedKeys Guarded))
   \<and> JNull \<in> {JUndefined, JNull} \<union> range JBool \<union> range JNum
   \<and> objectKeys exampleHeap JNull = []"
proof -
  have l: "(3::nat) < length exampleHeap"
    by (simp add: exampleHeap_def)
  have n: "JNull \<in> {JUndefined, JNull} \<union> range JBool \<union> range JNum"
    by simp
  have s: "\<forall>a. JStr ''text'' \<noteq> JRef a"
    by simp
  note m1 = merge_non_mapping [where archive = "JStr ''text''" and L = Guarded
      and h = exampleHeap and profile = "JRef 0" and a = 3]
  note m2 = merge_non_mapping [where archive = "JRef 3" and L = Guarded
      and h = exampleHeap and profile = JNull and a = 3]
  from m1 s have 1: "mergeEntitlements Guarded exampleHeap (JRef 0) (JStr ''text'') = Inl TypeError"
    by (elim conjE) simp
  from m2 l have 2: "\<exists>g h'. mergeEntitlements Guarded exampleHeap JNull (JRef 3) = Inr (JRef g, h')
          \<and> set (objectKeys h' (JRef g)) =
               (set (objectKeys exampleHeap JNull)
                  \<union> (set entitlementTransferRules \<inter> set (objectKeys exampleHeap (JRef 3))))
                 - set blacklistedEntitlementKeys - set (refusedKeys Guarded)"
    by (elim conjE) (rule mp)
  from m2 n have 3: "objectKeys exampleHeap JNull = []"
    by (elim conjE) (rule mp)
  from s 1 l 2 n 3 show ?thesis
    by (intro conjI)
qed

text \<open>
  C5: the profile \<^verbatim>\<open>{"keychain-access-groups": ["x"], "com.apple.developer.maps": true}\<close> merged
  with the archive \<^verbatim>\<open>{"keychain-access-groups": ["y","z"]}\<close> gives exactly
  \<^verbatim>\<open>{"keychain-access-groups": ["y","z"]}\<close>: the key holds the archive's array (at address 3),
  the maps key is gone. With the empty profile the key is added all the same. This holds
  with every lodash \<open>L\<close>.
\<close>

theorem merge_example:
  "mergeEntitlements L exampleHeap (JRef 0) (JRef 1) =
     Inr (JRef 7,
          exampleHeap @
            [PlainObject [(''keychain-access-groups'', JRef 3), (''com.apple.developer.maps'', JBool True)],
             PlainObject [(''keychain-access-groups'', JRef 3)]])
   \<and> obj_at exampleHeap 3 = Some (ArrayObject [JStr ''y'', JStr ''z''])
   \<and> mergeEntitlements L exampleHeap (JRef 4) (JRef 1) =
       Inr (JRef 7,
          exampleHeap @
            [PlainObject [(''keychain-access-groups'', JRef 3)],
             PlainObject [(''keychain-access-groups'', JRef 3)]])"
  by (cases L)
    (simp_all add: exampleHeap_def mergeEntitlements_def alloc_def ownEnumerable_def obj_at_def
        entitlementTransferRules_def js_in_def getProperty_def setProperty_def
        pickByNotBlacklisted_def blacklistedEntitlementKeys_def unsafeKeys_def)

text \<open>
  C10, as stated, fails: with a guarded lodash the key \<^verbatim>\<open>constructor\<close> of the profile
  \<^verbatim>\<open>{constructor: 'c', 'aps-environment': 'production'}\<close>, which is neither blacklisted nor a
  transfer rule, is not in the result of the merge with an empty archive: it reads as
  \<^verbatim>\<open>undefined\<close> there, not as \<^verbatim>\<open>'c'\<close>.
\<close>

theorem merge_frame_constructor:
  "getProperty constructorHeap (JRef 0) ''constructor'' = Inr (JStr ''c'')
   \<and> ''constructor'' \<notin> set blacklistedEntitlementKeys
   \<and> ''constructor'' \<notin> set entitlementTransferRules
   \<and> mergeEntitlements Guarded constructorHeap (JRef 0) (JRef 1) = Inr (JRef 3, constructorMerged)
   \<and> getProperty constructorMerged (JRef 3) ''constructor'' = Inr JUndefined"
  by (simp add: constructorMerged_def constructorHeap_def mergeEntitlements_def alloc_def
        ownEnumerable_def obj_at_def entitlementTransferRules_def js_in_def getProperty_def
        pickByNotBlacklisted_def blacklistedEntitlementKeys_def unsafeKeys_def)

text \<open>
  C10, amended: a key of the profile's entitlements that is not blacklisted, that is no
  transfer rule or no key of the archive's entitlements, and that the installed lodash
  does not refuse to set (with every lodash: a key other than \<^verbatim>\<open>__proto__\<close>, \<^verbatim>\<open>constructor\<close>
  and \<^verbatim>\<open>prototype\<close>) has in the result the value it has in the profile. The merge changes
  no object that existed before it: the heap it returns begins with the heap it was
  given, so both inputs are as they were, and the result is a new object.
\<close>

theorem merge_frame:
  assumes "obj_at h p = Some (PlainObject pp)" and "obj_at h a = Some (PlainObject ap)"
  shows "\<exists>g h'. mergeEntitlements L h (JRef p) (JRef a) = Inr (JRef g, h')
           \<and> (\<forall>k v. map_of pp k = Some v \<and> k \<notin> set blacklistedEntitlementKeys
                    \<and> k \<notin> set (refusedKeys L)
                    \<and> (k \<notin> set entitlementTransferRules \<or> k \<notin> fst ` set ap)
                 \<longrightarrow> getProperty h' (JRef g) k = Inr v)
           \<and> (\<forall>k v. map_of pp k = Some v \<and> k \<notin> set blacklistedEntitlementKeys
                    \<and> k \<notin> set unsafeKeys
                    \<and> (k \<notin> set entitlementTransferRules \<or> k \<notin> fst ` set ap)
                 \<longrightarrow> getProperty h' (JRef g) k = Inr v)
           \<and> take (length h) h' = h
           \<and> obj_at h' p = Some (PlainObject pp)
           \<and> obj_at h' a = Some (PlainObject ap)
           \<and> length h \<le> g"
proof -
  have a_lt: "a < length h"
    using assms(2) by (simp add: obj_at_def split: if_splits)
  have p_lt: "p < length h"
    using assms(1) by (simp add: obj_at_def split: if_splits)
  have pp: "ownEnumerable h (JRef p) = pp"
    using assms(1) by (simp add: ownEnumerable_def)
  have ap: "ownEnumerable h (JRef a) = ap"
    using assms(2) by (simp add: ownEnumerable_def)
  let ?tp = "transferProps ap pp entitlementTransferRules"
  let ?rp = "pickByNotBlacklisted L ?tp"
  let ?h' = "h @ [PlainObject ?tp, PlainObject ?rp]"
  let ?g = "Suc (length h)"
  have res: "mergeEntitlements L h (JRef p) (JRef a) = Inr (JRef ?g, ?h')"
    using merge_object_archive [OF a_lt, of L "JRef p"] pp ap by simp
  have own: "ownEnumerable ?h' (JRef ?g) = ?rp"
    by (simp add: ownEnumerable_def obj_at_def nth_append)
  have kept: "getProperty ?h' (JRef ?g) k = Inr v"
    if "map_of pp k = Some v" and "k \<notin> set blacklistedEntitlementKeys"
      and "k \<notin> set (refusedKeys L)"
      and "k \<notin> set entitlementTransferRules \<or> k \<notin> fst ` set ap" for k v
  proof -
    have "k \<notin> set entitlementTransferRules \<or> map_of ap k = None"
      using that(4) by (simp add: map_of_eq_None_iff)
    then have "map_of ?tp k = Some v"
      using that(1) by (simp add: transferProps_map_of_other)
    then have "map_of ?rp k = Some v"
      using that(2,3) by (simp add: pickByNotBlacklisted_map_of)
    then show ?thesis
      using own by (simp add: getProperty_def)
  qed
  have kept_safe: "getProperty ?h' (JRef ?g) k = Inr v"
    if "map_of pp k = Some v" and "k \<notin> set blacklistedEntitlementKeys"
      and "k \<notin> set unsafeKeys"
      and "k \<notin> set entitlementTransferRules \<or> k \<notin> fst ` set ap" for k v
  proof -
    have "k \<notin> set (refusedKeys L)"
      using that(3) refusedKeys_unsafe [of L] by (rule contra_subsetD [rotated])
    with that(1,2) show ?thesis
      using that(4) by (rule kept)
  qed
  have frame: "take (length h) ?h' = h"
    by simp
  have at_p: "obj_at ?h' p = Some (PlainObject pp)"
    using assms(1) p_lt by (simp add: obj_at_def nth_append)
  have at_a: "obj_at ?h' a = Some (PlainObject ap)"
    using assms(2) a_lt by (simp add: obj_at_def nth_append)
  show ?thesis
    using res kept kept_safe frame at_p at_a by (intro exI [of _ ?g] exI [of _ ?h']) simp
qed

theorem merge_frame_witness:
  "obj_at exampleHeap 0 =
      Some (PlainObject [(''keychain-access-groups'', JRef 2), (''com.apple.developer.maps'', JBool True)])
   \<and> obj_at exampleHeap 5 = Some (PlainObject [(''inter-app-audio'', JBool True)])
   \<and> (\<exists>g h'. mergeEntitlements Guarded exampleHeap (JRef 0) (JRef 5) = Inr (JRef g, h')
         \<and> getProperty h' (JRef g) ''keychain-access-groups'' = Inr (JRef 2)
         \<and> take (length exampleHeap) h' = exampleHeap)"
proof -
  have p: "obj_at exampleHeap 0 =
      Some (PlainObject [(''keychain-access-groups'', JRef 2), (''com.apple.developer.maps'', JBool True)])"
    by (simp add: obj_at_def exampleHeap_def)
  have a: "obj_at exampleHeap 5 = Some (PlainObject [(''inter-app-audio'', JBool True)])"
    by (simp add: obj_at_def exampleHeap_def)
  have k: "map_of [(''keychain-access-groups'', JRef 2), (''com.apple.developer.maps'', JBool True)]
             ''keychain-access-groups'' = Some (JRef 2)
           \<and> ''keychain-access-groups'' \<notin> set blacklistedEntitlementKeys
           \<and> ''keychain-access-groups'' \<notin> set (refusedKeys Guarded)
           \<and> (''keychain-access-groups'' \<notin> set entitlementTransferRules
                \<or> ''keychain-access-groups'' \<notin> fst ` set [(''inter-app-audio'', JBool True)])"
    by (simp add: blacklistedEntitlementKeys_def unsafeKeys_def)
  from merge_frame [OF p a, of Guarded] obtain g h' where
    r: "mergeEntitlements Guarded exampleHeap (JRef 0) (JRef 5) = Inr (JRef g, h')"
    and f: "\<forall>k v. map_of [(''keychain-access-groups'', JRef 2), (''com.apple.developer.maps'', JBool True)] k = Some v
              \<and> k \<notin> set blacklistedEntitlementKeys
              \<and> k \<notin> set (refusedKeys Guarded)
              \<and> (k \<notin> set entitlementTransferRules \<or> k \<notin> fst ` set [(''inter-app-audio'', JBool True)])
           \<longrightarrow> getProperty h' (JRef g) k = Inr v"
    and t: "take (length exampleHeap) h' = exampleHeap"
    by (elim exE conjE)
  from f [THEN spec, THEN spec, THEN mp, OF k]
  have v: "getProperty h' (JRef g) ''keychain-access-groups'' = Inr (JRef 2)" .
  from r v t have "\<exists>g h'. mergeEntitlements Guarded exampleHeap (JRef 0) (JRef 5) = Inr (JRef g, h')
         \<and> getProperty h' (JRef g) ''keychain-access-groups'' = Inr (JRef 2)
         \<and> take (length exampleHeap) h' = exampleHeap"
    by (intro exI conjI)
  with p a show ?thesis by (intro conjI)
qed

section \<open>Properties of the fingerprint\<close>

lemma indexOfFrom_sublist: "indexOfFrom s pat i \<noteq> - 1 \<longleftrightarrow> sublist pat s"
proof (induction s arbitrary: i)
  case Nil
  show ?case by simp
next
  case (Cons c cs)
  show ?case
    using Cons.IH [of "Suc i"] by (simp add: sublist_Cons_right)
qed

lemma indexOf_sublist: "indexOf s pat \<noteq> - 1 \<longleftrightarrow> sublist pat s"
  by (simp add: indexOf_def indexOfFrom_sublist)

lemma hexByte:
  assumes "n < 256"
  shows "(if n < 16 then ''0'' else []) @ toString16 n = [hexDigit (n div 16), hexDigit (n mod 16)]"
proof (cases "n < 16")
  case True
  then have "toString16 n = [hexDigit n]"
    by (simp add: toString16.simps)
  with True show ?thesis
    by (simp add: hexDigit_def)
next
  case False
  from assms have "n div 16 < 16" by simp
  then have "toString16 (n div 16) = [hexDigit (n div 16)]"
    by (simp add: toString16.simps)
  with False show ?thesis
    by (simp add: toString16.simps [of n])
qed

lemma toHex_digits:
  "toHex bs = concat (map (\<lambda>b. [hexDigit (unat b div 16), hexDigit (unat b mod 16)]) bs)"
proof -
  have "unat b < 256" for b :: byte
    using unsigned_less [of b, where ?'a = nat] by simp
  then show ?thesis
    unfolding toHex_def by (simp add: hexByte)
qed

lemma length_toHex: "length (toHex bs) = 2 * length bs"
  by (induction bs) (simp_all add: toHex_digits)

lemma upperHex_digit:
  assumes "d < 16"
  shows "isUpperHex (upperChar (hexDigit d))"
proof -
  have "\<forall>d \<in> set [0..<16]. isUpperHex (upperChar (hexDigit d))"
    by code_simp
  with assms show ?thesis by simp
qed

lemma upperHex_toHex: "c \<in> set (toUpperCase (toHex bs)) \<Longrightarrow> isUpperHex c"
proof -
  have d: "unat b div 16 < 16" for b :: byte
    using unsigned_less [of b, where ?'a = nat] by simp
  show "c \<in> set (toUpperCase (toHex bs)) \<Longrightarrow> isUpperHex c"
    by (auto simp: toUpperCase_def toHex_digits upperHex_digit d)
qed

lemma length_toUpperCase: "length (toUpperCase s) = length s"
  by (simp add: toUpperCase_def)

lemma genCertFingerprint_success:
  assumes "p12Base64 h p12Buffer = Inr s"
    and "asn1_fromDer F (decode64 F s) = Inr p12Asn1"
    and "pkcs12FromAsn1 F p12Asn1 (case passwordRaw of None \<Rightarrow> [] | Some p \<Rightarrow> p) = Inr p12"
    and "firstCert (getCertBags F p12) = Some cert"
  shows "genCertFingerprint F h p12Buffer passwordRaw =
           Inr (toUpperCase (toHex (sha1_digest F (asn1_toDer F (certificateToAsn1 F cert)))))"
  using assms by (simp add: genCertFingerprint_def)

text \<open>
  C6: \<^verbatim>\<open>genCertFingerprint\<close> fails with the error \<^verbatim>\<open>genCertFingerprint only takes strings and
  buffers.\<close> for every input that is neither a string nor a Buffer; with the error the
  decoding raised when DER parsing or PKCS 12 decoding raises (malformed container, wrong
  password); and with \<^verbatim>\<open>genCertFingerprint: couldn't find cert bag\<close> when the decoded
  container has no certificate bag.
\<close>

theorem fingerprint_failures:
  "((\<forall>s. p12Buffer \<noteq> JStr s)
      \<and> (\<forall>a bs. p12Buffer = JRef a \<longrightarrow> obj_at h a \<noteq> Some (BufferObject bs))
      \<longrightarrow> genCertFingerprint F h p12Buffer passwordRaw =
            Inl (Error ''genCertFingerprint only takes strings and buffers.''))
   \<and> (p12Base64 h p12Buffer = Inr s \<and> asn1_fromDer F (decode64 F s) = Inl e
      \<longrightarrow> genCertFingerprint F h p12Buffer passwordRaw = Inl e)
   \<and> (p12Base64 h p12Buffer = Inr s \<and> asn1_fromDer F (decode64 F s) = Inr asn
      \<and> pkcs12FromAsn1 F asn (case passwordRaw of None \<Rightarrow> [] | Some p \<Rightarrow> p) = Inl e
      \<longrightarrow> genCertFingerprint F h p12Buffer passwordRaw = Inl e)
   \<and> (p12Base64 h p12Buffer = Inr s \<and> asn1_fromDer F (decode64 F s) = Inr asn
      \<and> pkcs12FromAsn1 F asn (case passwordRaw of None \<Rightarrow> [] | Some p \<Rightarrow> p) = Inr pfx
      \<and> getCertBags F pfx = []
      \<longrightarrow> genCertFingerprint F h p12Buffer passwordRaw =
            Inl (Error ''genCertFingerprint: couldn't find cert bag''))"
proof (intro conjI impI)
  assume a: "(\<forall>s. p12Buffer \<noteq> JStr s)
      \<and> (\<forall>a bs. p12Buffer = JRef a \<longrightarrow> obj_at h a \<noteq> Some (BufferObject bs))"
  have "p12Base64 h p12Buffer = Inl (Error ''genCertFingerprint only takes strings and buffers.'')"
  proof (cases p12Buffer)
    case (JRef addr)
    with a have "obj_at h addr \<noteq> Some (BufferObject bs)" for bs by simp
    with JRef show ?thesis
      by (simp add: p12Base64_def split: option.splits jsobj.splits)
  qed (use a in \<open>simp_all add: p12Base64_def\<close>)
  then show "genCertFingerprint F h p12Buffer passwordRaw =
            Inl (Error ''genCertFingerprint only takes strings and buffers.'')"
    by (simp add: genCertFingerprint_def)
next
  assume "p12Base64 h p12Buffer = Inr s \<and> asn1_fromDer F (decode64 F s) = Inl e"
  then show "genCertFingerprint F h p12Buffer passwordRaw = Inl e"
    by (simp add: genCertFingerprint_def)
next
  assume "p12Base64 h p12Buffer = Inr s \<and> asn1_fromDer F (decode64 F s) = Inr asn
      \<and> pkcs12FromAsn1 F asn (case passwordRaw of None \<Rightarrow> [] | Some p \<Rightarrow> p) = Inl e"
  then show "genCertFingerprint F h p12Buffer passwordRaw = Inl e"
    by (simp add: genCertFingerprint_def)
next
  assume "p12Base64 h p12Buffer = Inr s \<and> asn1_fromDer F (decode64 F s) = Inr asn
      \<and> pkcs12FromAsn1 F asn (case passwordRaw of None \<Rightarrow> [] | Some p \<Rightarrow> p) = Inr pfx
      \<and> getCertBags F pfx = []"
  then show "genCertFingerprint F h p12Buffer passwordRaw =
            Inl (Error ''genCertFingerprint: couldn't find cert bag'')"
    by (simp add: genCertFingerprint_def firstCert_def)
qed

theorem fingerprint_failures_witness:
  "genCertFingerprint exampleForge [] (JNum (Fin 5)) None =
     Inl (Error ''genCertFingerprint only takes strings and buffers.'')
   \<and> genCertFingerprint exampleForge [] (JStr []) None = Inl (Error ''Too few bytes to parse DER.'')
   \<and> genCertFingerprint exampleForge [] (JStr ''AQID'') (Some ''wrong'') =
       Inl (Error ''PKCS#12 MAC could not be verified. Invalid password?'')
   \<and> genCertFingerprint exampleForge [] (JStr ''AQI'') (Some ''secret'') =
       Inl (Error ''genCertFingerprint: couldn't find cert bag'')"
proof -
  note f1 = fingerprint_failures [where F = exampleForge and h = "[]"
      and p12Buffer = "JNum (Fin 5)" and passwordRaw = None]
  have 1: "genCertFingerprint exampleForge [] (JNum (Fin 5)) None =
     Inl (Error ''genCertFingerprint only takes strings and buffers.'')"
    using f1 [THEN conjunct1] by simp
  have b2: "p12Base64 [] (JStr []) = Inr []"
    by (simp add: p12Base64_def)
  have d2: "asn1_fromDer exampleForge (decode64 exampleForge []) = Inl (Error ''Too few bytes to parse DER.'')"
    by code_simp
  note f2 = fingerprint_failures [where F = exampleForge and h = "[]" and p12Buffer = "JStr []"
      and passwordRaw = None and s = "[]" and e = "Error ''Too few bytes to parse DER.''"]
  have 2: "genCertFingerprint exampleForge [] (JStr []) None = Inl (Error ''Too few bytes to parse DER.'')"
    using f2 [THEN conjunct2, THEN conjunct1] b2 d2 by (simp only: simp_thms)
  have b3: "p12Base64 [] (JStr ''AQID'') = Inr ''AQID''"
    by (simp add: p12Base64_def)
  have d3: "asn1_fromDer exampleForge (decode64 exampleForge ''AQID'') = Inr [65, 81, 73, 68]"
    by code_simp
  have p3: "pkcs12FromAsn1 exampleForge [65, 81, 73, 68] (case Some ''wrong'' of None \<Rightarrow> [] | Some p \<Rightarrow> p) =
      Inl (Error ''PKCS#12 MAC could not be verified. Invalid password?'')"
    by code_simp
  note f3 = fingerprint_failures [where F = exampleForge and h = "[]" and p12Buffer = "JStr ''AQID''"
      and passwordRaw = "Some ''wrong''" and s = "''AQID''" and asn = "[65, 81, 73, 68]"
      and e = "Error ''PKCS#12 MAC could not be verified. Invalid password?''"]
  have 3: "genCertFingerprint exampleForge [] (JStr ''AQID'') (Some ''wrong'') =
       Inl (Error ''PKCS#12 MAC could not be verified. Invalid password?'')"
    using f3 [THEN conjunct2, THEN conjunct2, THEN conjunct1] b3 d3 p3 by (simp only: simp_thms)
  have b4: "p12Base64 [] (JStr ''AQI'') = Inr ''AQI''"
    by (simp add: p12Base64_def)
  have d4: "asn1_fromDer exampleForge (decode64 exampleForge ''AQI'') = Inr [65, 81, 73]"
    by code_simp
  have p4: "pkcs12FromAsn1 exampleForge [65, 81, 73] (case Some ''secret'' of None \<Rightarrow> [] | Some p \<Rightarrow> p) =
      Inr [65, 81, 73]"
    by code_simp
  have g4: "getCertBags exampleForge [65, 81, 73] = []"
    by code_simp
  note f4 = fingerprint_failures [where F = exampleForge and h = "[]" and p12Buffer = "JStr ''AQI''"
      and passwordRaw = "Some ''secret''" and s = "''AQI''" and asn = "[65, 81, 73]"
      and pfx = "[65, 81, 73]"]
  have 4: "genCertFingerprint exampleForge [] (JStr ''AQI'') (Some ''secret'') =
       Inl (Error ''genCertFingerprint: couldn't find cert bag'')"
    using f4 [THEN conjunct2, THEN conjunct2, THEN conjunct2] b4 d4 p4 g4 by (simp only: simp_thms)
  from 1 2 3 4 show ?thesis by (intro conjI)
qed

text \<open>
  C7: for every byte sequence and password, the fingerprint of a Buffer holding the bytes
  is the fingerprint of the base64 string of the bytes, failures included.
\<close>

theorem fingerprint_buffer_base64:
  assumes "obj_at h a = Some (BufferObject bs)"
  shows "genCertFingerprint F h (JRef a) passwordRaw =
           genCertFingerprint F h' (JStr (toString_base64 bs)) passwordRaw"
  using assms by (simp add: genCertFingerprint_def p12Base64_def)

theorem fingerprint_buffer_base64_witness:
  "obj_at [BufferObject [1, 2, 3]] 0 = Some (BufferObject [1, 2, 3])
   \<and> toString_base64 [1, 2, 3] = ''AQID''
   \<and> genCertFingerprint exampleForge [BufferObject [1, 2, 3]] (JRef 0) (Some ''secret'') =
       genCertFingerprint exampleForge [] (JStr ''AQID'') (Some ''secret'')"
proof -
  have o: "obj_at [BufferObject [1, 2, 3]] 0 = Some (BufferObject [1, 2, 3])"
    by (simp add: obj_at_def)
  have b: "toString_base64 [1, 2, 3] = ''AQID''"
    by (simp add: b64_def base64Alphabet_def)
  from fingerprint_buffer_base64 [OF o, of exampleForge "Some ''secret''" "[]"] b o
  show ?thesis by simp
qed

text \<open>
  C9: for a container that decodes with the password and has a single certificate bag,
  the fingerprint is the upper-case hexadecimal form of the SHA-1 digest of the
  certificate's DER encoding: 40 characters, each one of \<^verbatim>\<open>0-9A-F\<close>, the digest being 20
  bytes. A second call on the same bytes and password, through whatever object, returns
  the same string.
\<close>

theorem fingerprint_forty_hex:
  assumes "p12Base64 h p12Buffer = Inr s"
    and "asn1_fromDer F (decode64 F s) = Inr p12Asn1"
    and "pkcs12FromAsn1 F p12Asn1 (case passwordRaw of None \<Rightarrow> [] | Some p \<Rightarrow> p) = Inr p12"
    and "getCertBags F p12 = [Some cert]"
    and "length (sha1_digest F (asn1_toDer F (certificateToAsn1 F cert))) = 20"
    and "p12Base64 h' p12Buffer' = Inr s"
  shows "\<exists>fp. genCertFingerprint F h p12Buffer passwordRaw = Inr fp
           \<and> fp = toUpperCase (toHex (sha1_digest F (asn1_toDer F (certificateToAsn1 F cert))))
           \<and> length fp = 40
           \<and> (\<forall>c \<in> set fp. isUpperHex c)
           \<and> genCertFingerprint F h' p12Buffer' passwordRaw = Inr fp"
proof -
  let ?fp = "toUpperCase (toHex (sha1_digest F (asn1_toDer F (certificateToAsn1 F cert))))"
  have first: "firstCert (getCertBags F p12) = Some cert"
    using assms(4) by (simp add: firstCert_def)
  have 1: "genCertFingerprint F h p12Buffer passwordRaw = Inr ?fp"
    using assms(1-3) first by (rule genCertFingerprint_success)
  have 2: "genCertFingerprint F h' p12Buffer' passwordRaw = Inr ?fp"
    using assms(6) assms(2,3) first by (rule genCertFingerprint_success)
  have 3: "length ?fp = 40"
    using assms(5) by (simp add: length_toUpperCase length_toHex)
  have 4: "\<forall>c \<in> set ?fp. isUpperHex c"
    by (simp add: upperHex_toHex)
  from 1 2 3 4 show ?thesis by simp
qed

theorem fingerprint_forty_hex_witness:
  "p12Base64 [BufferObject [1, 2, 3]] (JRef 0) = Inr ''AQID''
   \<and> asn1_fromDer exampleForge (decode64 exampleForge ''AQID'') = Inr [65, 81, 73, 68]
   \<and> pkcs12FromAsn1 exampleForge [65, 81, 73, 68] ''secret'' = Inr [65, 81, 73, 68]
   \<and> getCertBags exampleForge [65, 81, 73, 68] = [Some [65, 81, 73, 68]]
   \<and> length (sha1_digest exampleForge
        (asn1_toDer exampleForge (certificateToAsn1 exampleForge [65, 81, 73, 68]))) = 20
   \<and> p12Base64 [] (JStr ''AQID'') = Inr ''AQID''
   \<and> genCertFingerprint exampleForge [BufferObject [1, 2, 3]] (JRef 0) (Some ''secret'') =
       Inr ''0404040404040404040404040404040404040404''
   \<and> genCertFingerprint exampleForge [] (JStr ''AQID'') (Some ''secret'') =
       Inr ''0404040404040404040404040404040404040404''"
proof -
  have a1: "p12Base64 [BufferObject [1, 2, 3]] (JRef 0) = Inr ''AQID''"
    by (simp add: p12Base64_def obj_at_def b64_def base64Alphabet_def)
  have a2: "asn1_fromDer exampleForge (decode64 exampleForge ''AQID'') = Inr [65, 81, 73, 68]"
    by code_simp
  have a3: "pkcs12FromAsn1 exampleForge [65, 81, 73, 68]
              (case Some ''secret'' of None \<Rightarrow> [] | Some p \<Rightarrow> p) = Inr [65, 81, 73, 68]"
    by (simp add: exampleForge_def)
  have a4: "getCertBags exampleForge [65, 81, 73, 68] = [Some [65, 81, 73, 68]]"
    by (simp add: exampleForge_def)
  have a5: "length (sha1_digest exampleForge
        (asn1_toDer exampleForge (certificateToAsn1 exampleForge [65, 81, 73, 68]))) = 20"
    by (simp add: exampleForge_def)
  have a6: "p12Base64 [] (JStr ''AQID'') = Inr ''AQID''"
    by (simp add: p12Base64_def)
  have v: "toUpperCase (toHex (sha1_digest exampleForge
        (asn1_toDer exampleForge (certificateToAsn1 exampleForge [65, 81, 73, 68])))) =
        ''0404040404040404040404040404040404040404''"
    by code_simp
  from fingerprint_forty_hex [OF a1 a2 a3 a4 a5 a6] v
  have "genCertFingerprint exampleForge [BufferObject [1, 2, 3]] (JRef 0) (Some ''secret'') =
       Inr ''0404040404040404040404040404040404040404''
     \<and> genCertFingerprint exampleForge [] (JStr ''AQID'') (Some ''secret'') =
       Inr ''0404040404040404040404040404040404040404''"
    by (elim exE conjE) simp
  with a1 a2 a3 a4 a5 a6 show ?thesis by simp
qed

text \<open>
  C3: once the fingerprint is computed and the identities are listed,
  \<^verbatim>\<open>ensureCertificateValid\<close> returns the fingerprint if and only if it occurs in the
  listing as a substring. Otherwise it fails with the error \<^verbatim>\<open>codesign ident not present in
  find-identity\<close>, whose message holds the fingerprint and the whole listing; so it does on
  an empty listing, a fingerprint being not empty.
\<close>

theorem certificate_valid_iff:
  assumes "readFile E w certPath = Inr certData"
    and "genCertFingerprint F [BufferObject certData] (JRef 0) certPassword = Inr fp"
    and "spawnAsyncThrowError E w ''security''
           [''find-identity'', ''-v'', ''-s'', ''('' @ teamID @ '')''] = Inr (output, w')"
  shows "(ensureCertificateValid E F w certPath certPassword teamID = Inr (fp, w')
            \<longleftrightarrow> sublist fp (concat output))
       \<and> ((\<exists>r. ensureCertificateValid E F w certPath certPassword teamID = Inr r)
            \<longleftrightarrow> sublist fp (concat output))
       \<and> (\<not> sublist fp (concat output) \<longrightarrow>
            ensureCertificateValid E F w certPath certPassword teamID =
              Inl (Error (''codesign ident not present in find-identity: ''
                          @ fp @ [CHR 0x0A] @ concat output)))
       \<and> sublist fp (''codesign ident not present in find-identity: '' @ fp @ [CHR 0x0A] @ concat output)
       \<and> sublist (concat output)
            (''codesign ident not present in find-identity: '' @ fp @ [CHR 0x0A] @ concat output)
       \<and> (fp \<noteq> [] \<and> concat output = [] \<longrightarrow>
            ensureCertificateValid E F w certPath certPassword teamID =
              Inl (Error (''codesign ident not present in find-identity: '' @ fp @ [CHR 0x0A])))"
proof -
  let ?ids = "concat output"
  let ?msg = "''codesign ident not present in find-identity: '' @ fp @ [CHR 0x0A] @ ?ids"
  have find: "findIdentitiesByTeamID E w teamID = Inr (?ids, w')"
    using assms(3) by (simp add: findIdentitiesByTeamID_def)
  have res: "ensureCertificateValid E F w certPath certPassword teamID =
               (if sublist fp ?ids then Inr (fp, w') else Inl (Error ?msg))"
    using assms(1,2) find by (simp add: ensureCertificateValid_def indexOf_sublist)
  have s1: "sublist fp ?msg"
    by (rule sublist_appendI)
  have s2: "sublist ?ids ?msg"
    using sublist_append_leftI [of ?ids "''codesign ident not present in find-identity: '' @ fp @ [CHR 0x0A]"]
    by simp
  have empty: "fp \<noteq> [] \<Longrightarrow> ?ids = [] \<Longrightarrow> \<not> sublist fp ?ids"
    by (simp only: sublist_Nil_right simp_thms)
  show ?thesis
    using res s1 s2 empty by (auto simp del: append.simps)
qed

theorem certificate_valid_iff_witness:
  "readFile exampleEnv [] ''cert.p12'' = Inr [1, 2, 3]
   \<and> genCertFingerprint exampleForge [BufferObject [1, 2, 3]] (JRef 0) (Some ''secret'') =
        Inr ''0404040404040404040404040404040404040404''
   \<and> spawnAsyncThrowError exampleEnv [] ''security''
        [''find-identity'', ''-v'', ''-s'', ''('' @ ''TEAM1'' @ '')''] =
        Inr ([''1) '', ''0404040404040404040404040404040404040404'', '' ok''], [])
   \<and> ensureCertificateValid exampleEnv exampleForge [] ''cert.p12'' (Some ''secret'') ''TEAM1'' =
        Inr (''0404040404040404040404040404040404040404'', [])
   \<and> spawnAsyncThrowError exampleEnv [] ''security''
        [''find-identity'', ''-v'', ''-s'', ''('' @ ''OTHER'' @ '')''] = Inr ([], [])
   \<and> ensureCertificateValid exampleEnv exampleForge [] ''cert.p12'' (Some ''secret'') ''OTHER'' =
        Inl (Error (''codesign ident not present in find-identity: ''
                    @ ''0404040404040404040404040404040404040404'' @ [CHR 0x0A]))"
proof -
  let ?fp = "''0404040404040404040404040404040404040404''"
  have r: "readFile exampleEnv [] ''cert.p12'' = Inr [1, 2, 3]"
    by code_simp
  have g: "genCertFingerprint exampleForge [BufferObject [1, 2, 3]] (JRef 0) (Some ''secret'') = Inr ?fp"
    by code_simp
  have s1: "spawnAsyncThrowError exampleEnv [] ''security''
        [''find-identity'', ''-v'', ''-s'', ''('' @ ''TEAM1'' @ '')''] =
        Inr ([''1) '', ?fp, '' ok''], [])"
    by code_simp
  have s2: "spawnAsyncThrowError exampleEnv [] ''security''
        [''find-identity'', ''-v'', ''-s'', ''('' @ ''OTHER'' @ '')''] = Inr ([], [])"
    by code_simp
  have sub: "sublist ?fp (concat [''1) '', ?fp, '' ok''])"
    by code_simp
  have 1: "ensureCertificateValid exampleEnv exampleForge [] ''cert.p12'' (Some ''secret'') ''TEAM1'' =
        Inr (?fp, [])"
    using certificate_valid_iff [OF r g s1, THEN conjunct1] sub by (simp only: simp_thms)
  have ne: "?fp \<noteq> [] \<and> concat ([] :: string list) = []"
    by simp
  have 2: "ensureCertificateValid exampleEnv exampleForge [] ''cert.p12'' (Some ''secret'') ''OTHER'' =
        Inl (Error (''codesign ident not present in find-identity: '' @ ?fp @ [CHR 0x0A]))"
    using certificate_valid_iff [OF r g s2, THEN conjunct2, THEN conjunct2, THEN conjunct2,
        THEN conjunct2, THEN conjunct2, THEN mp, OF ne] .
  from r g s1 1 s2 2 show ?thesis by (intro conjI)
qed

section \<open>Finding the entitlements of the archive\<close>

text \<open>
  C8: with the paths that match \<^verbatim>\<open>Products/Applications/ExpoKitApp.app/*.entitlements\<close> under
  the archive, \<^verbatim>\<open>createEntitlementsFile\<close> fails with \<^verbatim>\<open>Didn't find any generated entitlements
  file in archive.\<close> when there is none, with \<^verbatim>\<open>Found more than one entitlements file.\<close> when
  there are several, and goes on to read, parse and merge the file only when there is
  exactly one; it succeeds only then.
\<close>

theorem entitlements_discovery:
  assumes "getProperty h plistData ''Entitlements'' = Inr profileEntitlements"
    and "glob E w (path_join E archivePath ''Products/Applications/ExpoKitApp.app/*.entitlements'')
           = Inr entitlementsPaths"
  shows "(entitlementsPaths = [] \<longrightarrow>
            createEntitlementsFile E w h generatedEntitlementsPath plistData archivePath =
              Inl (Error ''Didn't find any generated entitlements file in archive.''))
       \<and> (1 < length entitlementsPaths \<longrightarrow>
            createEntitlementsFile E w h generatedEntitlementsPath plistData archivePath =
              Inl (Error ''Found more than one entitlements file.''))
       \<and> (\<forall>p. entitlementsPaths = [p] \<longrightarrow>
            createEntitlementsFile E w h generatedEntitlementsPath plistData archivePath =
              processArchiveEntitlements E w h generatedEntitlementsPath profileEntitlements p)
       \<and> ((\<exists>w'. createEntitlementsFile E w h generatedEntitlementsPath plistData archivePath = Inr w')
            \<longrightarrow> length entitlementsPaths = 1)"
proof -
  have res: "createEntitlementsFile E w h generatedEntitlementsPath plistData archivePath =
      (if length entitlementsPaths = 0
       then Inl (Error ''Didn't find any generated entitlements file in archive.'')
       else if length entitlementsPaths \<noteq> 1
       then Inl (Error ''Found more than one entitlements file.'')
       else processArchiveEntitlements E w h generatedEntitlementsPath profileEntitlements
              (entitlementsPaths ! 0))"
    using assms by (simp add: createEntitlementsFile_def)
  have zero: "entitlementsPaths = [] \<longrightarrow>
            createEntitlementsFile E w h generatedEntitlementsPath plistData archivePath =
              Inl (Error ''Didn't find any generated entitlements file in archive.'')"
    using res by simp
  have many: "1 < length entitlementsPaths \<longrightarrow>
            createEntitlementsFile E w h generatedEntitlementsPath plistData archivePath =
              Inl (Error ''Found more than one entitlements file.'')"
    using res by simp
  have one: "\<forall>p. entitlementsPaths = [p] \<longrightarrow>
            createEntitlementsFile E w h generatedEntitlementsPath plistData archivePath =
              processArchiveEntitlements E w h generatedEntitlementsPath profileEntitlements p"
    using res by simp
  have only: "(\<exists>w'. createEntitlementsFile E w h generatedEntitlementsPath plistData archivePath = Inr w')
            \<longrightarrow> length entitlementsPaths = 1"
    using res by (auto split: if_splits)
  from zero many one only show ?thesis by (intro conjI)
qed

theorem entitlements_discovery_witness:
  "getProperty profileHeap (JRef 0) ''Entitlements'' = Inr (JRef 1)
   \<and> glob exampleEnv [] (path_join exampleEnv ''none.xcarchive''
         ''Products/Applications/ExpoKitApp.app/*.entitlements'') = Inr []
   \<and> createEntitlementsFile exampleEnv [] profileHeap ''out.entitlements'' (JRef 0) ''none.xcarchive'' =
        Inl (Error ''Didn't find any generated entitlements file in archive.'')
   \<and> glob exampleEnv [] (path_join exampleEnv ''two.xcarchive''
         ''Products/Applications/ExpoKitApp.app/*.entitlements'') =
        Inr [''two/a.entitlements'', ''two/b.entitlements'']
   \<and> createEntitlementsFile exampleEnv [] profileHeap ''out.entitlements'' (JRef 0) ''two.xcarchive'' =
        Inl (Error ''Found more than one entitlements file.'')
   \<and> glob exampleEnv [] (path_join exampleEnv ''one.xcarchive''
         ''Products/Applications/ExpoKitApp.app/*.entitlements'') =
        Inr [''one/ExpoKitApp.entitlements'']
   \<and> createEntitlementsFile exampleEnv [] profileHeap ''out.entitlements'' (JRef 0) ''one.xcarchive'' =
        Inr [(''out.entitlements'', Text ''application-identifierkeychain-access-groups'', 493),
             (''out.entitlements'', Text ''<plist/>'', 493)]"
proof -
  have gp: "getProperty profileHeap (JRef 0) ''Entitlements'' = Inr (JRef 1)"
    by code_simp
  have g0: "glob exampleEnv [] (path_join exampleEnv ''none.xcarchive''
         ''Products/Applications/ExpoKitApp.app/*.entitlements'') = Inr []"
    by code_simp
  have g2: "glob exampleEnv [] (path_join exampleEnv ''two.xcarchive''
         ''Products/Applications/ExpoKitApp.app/*.entitlements'') =
        Inr [''two/a.entitlements'', ''two/b.entitlements'']"
    by code_simp
  have g1: "glob exampleEnv [] (path_join exampleEnv ''one.xcarchive''
         ''Products/Applications/ExpoKitApp.app/*.entitlements'') =
        Inr [''one/ExpoKitApp.entitlements'']"
    by code_simp
  have r0: "createEntitlementsFile exampleEnv [] profileHeap ''out.entitlements'' (JRef 0) ''none.xcarchive'' =
        Inl (Error ''Didn't find any generated entitlements file in archive.'')"
    using entitlements_discovery [OF gp g0, THEN conjunct1, THEN mp, OF refl] .
  have two: "1 < length [''two/a.entitlements'', ''two/b.entitlements'']"
    by simp
  have r2: "createEntitlementsFile exampleEnv [] profileHeap ''out.entitlements'' (JRef 0) ''two.xcarchive'' =
        Inl (Error ''Found more than one entitlements file.'')"
    using entitlements_discovery [OF gp g2, THEN conjunct2, THEN conjunct1, THEN mp, OF two] .
  have p: "processArchiveEntitlements exampleEnv [] profileHeap ''out.entitlements'' (JRef 1)
        ''one/ExpoKitApp.entitlements'' =
        Inr [(''out.entitlements'', Text ''application-identifierkeychain-access-groups'', 493),
             (''out.entitlements'', Text ''<plist/>'', 493)]"
    by code_simp
  have r1: "createEntitlementsFile exampleEnv [] profileHeap ''out.entitlements'' (JRef 0) ''one.xcarchive'' =
        Inr [(''out.entitlements'', Text ''application-identifierkeychain-access-groups'', 493),
             (''out.entitlements'', Text ''<plist/>'', 493)]"
    using entitlements_discovery [OF gp g1, THEN conjunct2, THEN conjunct2, THEN conjunct1,
        THEN spec, THEN mp, OF refl] p by (rule trans)
  from gp g0 r0 g2 r2 g1 r1 show ?thesis by (intro conjI)
qed

end
